theory Spec2Isabelle
  imports Complex_Main "HOL-Library.Multiset"
begin

section \<open>The LawVisor risk engine (backend/core/risk\_engine.py)\<close>

text \<open>
  The engine turns extracted clauses and their compliance analyses into clause risks,
  category risks, one overall score and a report.

  Numbers: a Python \<open>float\<close> is read as an exact real number, so \<open>+\<close>, \<open>*\<close>, \<open>/\<close>,
  \<open>min\<close> and \<open>max\<close> are the exact operations and there is no rounding error, infinity or
  NaN. The program computes in IEEE doubles, so the theorems below are of two kinds only:
  identities between expressions that the program evaluates in the same way, which hold
  in any arithmetic, and evaluations at concrete inputs where the program's result in
  doubles is the value shown. Bounds and comparisons that rest on exact values of rounded
  sums and quotients are not stated. Counts and lengths are natural numbers. A Python \<open>str\<close> is a
  \<open>string\<close>.
  Fields of different classes that share a name are told apart by the class name, as in
  \<open>ClauseRisk.risk_score\<close> and \<open>CategoryRisk.risk_score\<close>.
\<close>

subsection \<open>Data model\<close>

datatype RiskLevel = CRITICAL | HIGH | MEDIUM | LOW | MINIMAL

text \<open>\<open>ClauseType\<close> of core/clause\_extractor.py, a string-valued enum.\<close>

datatype ClauseType =
    DATA_PROTECTION | LIABILITY | TERMINATION | INTELLECTUAL_PROPERTY | JURISDICTION
  | CONFIDENTIALITY | INDEMNIFICATION | FORCE_MAJEURE | PAYMENT_TERMS | WARRANTIES
  | DISPUTE_RESOLUTION | AMENDMENT | ASSIGNMENT | GOVERNING_LAW | SEVERABILITY
  | NOTICES | ENTIRE_AGREEMENT | COUNTERPARTS | UNKNOWN

fun ClauseType_value :: "ClauseType \<Rightarrow> string" where
  "ClauseType_value DATA_PROTECTION = ''data_protection''"
| "ClauseType_value LIABILITY = ''liability''"
| "ClauseType_value TERMINATION = ''termination''"
| "ClauseType_value INTELLECTUAL_PROPERTY = ''intellectual_property''"
| "ClauseType_value JURISDICTION = ''jurisdiction''"
| "ClauseType_value CONFIDENTIALITY = ''confidentiality''"
| "ClauseType_value INDEMNIFICATION = ''indemnification''"
| "ClauseType_value FORCE_MAJEURE = ''force_majeure''"
| "ClauseType_value PAYMENT_TERMS = ''payment_terms''"
| "ClauseType_value WARRANTIES = ''warranties''"
| "ClauseType_value DISPUTE_RESOLUTION = ''dispute_resolution''"
| "ClauseType_value AMENDMENT = ''amendment''"
| "ClauseType_value ASSIGNMENT = ''assignment''"
| "ClauseType_value GOVERNING_LAW = ''governing_law''"
| "ClauseType_value SEVERABILITY = ''severability''"
| "ClauseType_value NOTICES = ''notices''"
| "ClauseType_value ENTIRE_AGREEMENT = ''entire_agreement''"
| "ClauseType_value COUNTERPARTS = ''counterparts''"
| "ClauseType_value UNKNOWN = ''unknown''"

text \<open>
  \<open>ExtractedClause\<close> (core/clause\_extractor.py): the four fields the engine reads. The
  class has further fields (normalized text, page number, positions, confidence,
  sub-clauses, metadata) that the engine never touches.
\<close>

record ExtractedClause =
  clause_id :: string
  clause_type :: ClauseType
  title :: string
  raw_text :: string

text \<open>\<open>RetrievedContext\<close> and \<open>ComplianceAnalysis\<close> (core/rag\_engine.py); the field
  \<open>text\<close> of the former is \<open>context_text\<close>.\<close>

record RetrievedContext =
  regulation_id :: string
  article_number :: string
  title :: string
  context_text :: string
  relevance_score :: real
  source_url :: string
  regulation_type :: string

record ComplianceAnalysis =
  clause_id :: string
  clause_type :: string
  clause_text :: string
  is_compliant :: bool
  risk_level :: string
  risk_score :: real
  violated_regulations :: "string list"
  matched_regulations :: "RetrievedContext list"
  explanation :: string
  reasoning_chain :: "string list"
  recommendations :: "string list"
  confidence :: real

text \<open>
  A contributing factor is the dict \<open>{"factor": .., "value": .., "description": ..}\<close>;
  the key \<open>value\<close> is the field \<open>val\<close>.
\<close>

record Factor =
  factor :: string
  val :: real
  description :: string

record ClauseRisk =
  clause_id :: string
  clause_type :: string
  clause_title :: string
  clause_text_preview :: string
  risk_score :: real
  risk_level :: RiskLevel
  contributing_factors :: "Factor list"
  violated_regulations :: "string list"
  recommendations :: "string list"
  explanation :: string
  confidence :: real

record CategoryRisk =
  category :: string
  category_display :: string
  risk_score :: real
  risk_level :: RiskLevel
  clause_count :: nat
  high_risk_clauses :: nat
  top_issues :: "string list"
  clauses :: "ClauseRisk list"

text \<open>A citation is the dict built in \<open>_collect_citations\<close>.\<close>

record Citation =
  regulation_id :: string
  title :: string
  source_url :: string
  regulation_type :: string

text \<open>
  The scoring breakdown is a dict; its three nested dicts are flattened into one record,
  and the empty dict \<open>{}\<close> of the empty contract is \<open>None\<close>.
\<close>

record Breakdown =
  weighted_average_value :: real
  weighted_average_weight :: real
  weighted_average_contribution :: real
  max_clause_score :: real
  max_risk_penalty :: real
  high_risk_count :: nat
  total_clauses :: nat
  high_risk_density :: real
  high_risk_density_penalty :: real
  formula :: string

text \<open>
  \<open>ContractRiskReport\<close> without \<open>analyzed_at\<close> (the clock) and \<open>summary\<close> (a formatted
  sentence); every other field is here.
\<close>

record ContractRiskReport =
  document_id :: string
  overall_risk_score :: real
  overall_risk_level :: RiskLevel
  total_clauses_analyzed :: nat
  high_risk_clause_count :: nat
  medium_risk_clause_count :: nat
  low_risk_clause_count :: nat
  category_risks :: "CategoryRisk list"
  top_risks :: "ClauseRisk list"
  all_clause_risks :: "ClauseRisk list"
  citations :: "Citation list"
  confidence :: real
  scoring_breakdown :: "Breakdown option"

subsection \<open>Weight table and display names\<close>

definition CLAUSE_TYPE_WEIGHTS :: "(string \<times> real) list" where
  "CLAUSE_TYPE_WEIGHTS =
    [(''data_protection'', 1.5), (''liability'', 1.4), (''indemnification'', 1.4),
     (''confidentiality'', 1.3), (''intellectual_property'', 1.3), (''jurisdiction'', 1.2),
     (''termination'', 1.2), (''dispute_resolution'', 1.1), (''warranties'', 1.1),
     (''payment_terms'', 1.0), (''force_majeure'', 1.0), (''governing_law'', 1.0),
     (''amendment'', 0.9), (''assignment'', 0.9), (''severability'', 0.8),
     (''notices'', 0.8), (''entire_agreement'', 0.7), (''counterparts'', 0.5),
     (''unknown'', 1.0)]"

definition CATEGORY_DISPLAY_NAMES :: "(string \<times> string) list" where
  "CATEGORY_DISPLAY_NAMES =
    [(''data_protection'', ''Data Protection & Privacy''),
     (''liability'', ''Liability & Risk Allocation''),
     (''indemnification'', ''Indemnification''),
     (''confidentiality'', ''Confidentiality''),
     (''intellectual_property'', ''Intellectual Property''),
     (''jurisdiction'', ''Jurisdiction & Venue''),
     (''termination'', ''Termination Rights''),
     (''dispute_resolution'', ''Dispute Resolution''),
     (''warranties'', ''Warranties & Representations''),
     (''payment_terms'', ''Payment Terms''),
     (''force_majeure'', ''Force Majeure''),
     (''governing_law'', ''Governing Law''),
     (''amendment'', ''Amendment Provisions''),
     (''assignment'', ''Assignment Rights''),
     (''severability'', ''Severability''),
     (''notices'', ''Notices''),
     (''entire_agreement'', ''Entire Agreement''),
     (''counterparts'', ''Counterparts''),
     (''unknown'', ''Other Provisions'')]"

text \<open>\<open>d.get(k, default)\<close> on a dict given by its items.\<close>

definition dict_get :: "('k \<times> 'v) list \<Rightarrow> 'k \<Rightarrow> 'v \<Rightarrow> 'v" where
  "dict_get d k dflt = (case map_of d k of Some v \<Rightarrow> v | None \<Rightarrow> dflt)"

text \<open>\<open>self.clause_weights.get(t, 1.0)\<close>\<close>

definition clause_weight :: "string \<Rightarrow> real" where
  "clause_weight t = dict_get CLAUSE_TYPE_WEIGHTS t 1.0"

subsection \<open>Python built-ins used by the engine\<close>

text \<open>
  \<open>sorted(xs, key=k, reverse=True)\<close> and \<open>xs.sort(key=k, reverse=True)\<close>: Python's sort is
  stable also with \<open>reverse=True\<close>, so the result is the stable sort by descending key.
\<close>

definition sorted_reverse :: "('a \<Rightarrow> real) \<Rightarrow> 'a list \<Rightarrow> 'a list" where
  "sorted_reverse k xs = sort_key (\<lambda>x. - k x) xs"

text \<open>\<open>round(x, 2)\<close>: to the nearest hundredth, a tie going to the even neighbour.\<close>

definition round2 :: "real \<Rightarrow> real" where
  "round2 x =
     (let y = x * 100; f = \<lfloor>y\<rfloor>
      in real_of_int (if y - of_int f < 1 / 2 then f
                      else if 1 / 2 < y - of_int f then f + 1
                      else if even f then f else f + 1) / 100)"

subsection \<open>\<open>_score_to_level\<close>\<close>

definition score_to_level :: "real \<Rightarrow> RiskLevel" where
  "score_to_level score =
     (if score \<ge> 80 then CRITICAL
      else if score \<ge> 60 then HIGH
      else if score \<ge> 40 then MEDIUM
      else if score \<ge> 20 then LOW
      else MINIMAL)"

subsection \<open>\<open>_calculate_clause_risks\<close>\<close>

text \<open>\<open>analysis_map = {a.clause_id: a for a in analyses}\<close>: a later analysis replaces an
  earlier one with the same clause id.\<close>

definition analysis_map :: "ComplianceAnalysis list \<Rightarrow> (string \<rightharpoonup> ComplianceAnalysis)" where
  "analysis_map analyses = fold (\<lambda>a m. m(ComplianceAnalysis.clause_id a \<mapsto> a)) analyses Map.empty"

text \<open>
  The body of the loop over the clauses: one \<open>ClauseRisk\<close> for one clause. \<open>if analysis:\<close>
  tests the result of \<open>analysis_map.get\<close> against \<open>None\<close> (an analysis object is always
  true). The loop appends one such value per clause, in order; the parameter \<open>clauses\<close> is
  written \<open>cls\<close>, since \<open>clauses\<close> is a field of \<open>CategoryRisk\<close>.
\<close>

definition clause_risk :: "(string \<rightharpoonup> ComplianceAnalysis) \<Rightarrow> ExtractedClause \<Rightarrow> ClauseRisk" where
  "clause_risk amap clause =
     (case amap (ExtractedClause.clause_id clause) of
        Some analysis \<Rightarrow>
          (let base_score = ComplianceAnalysis.risk_score analysis;
               weight = clause_weight (ClauseType_value (ExtractedClause.clause_type clause));
               weighted_score = min 100 (base_score * weight);
               confidence_factor = 0.5 + (ComplianceAnalysis.confidence analysis * 0.5);
               final_score = weighted_score * confidence_factor;
               contributing_factors =
                 [\<lparr>factor = ''Base Compliance Score'', val = base_score,
                    description = ''Score from regulatory compliance analysis''\<rparr>,
                  \<lparr>factor = ''Clause Type Weight'', val = weight,
                    description = ''Importance weight for '' @
                                  ClauseType_value (ExtractedClause.clause_type clause)\<rparr>,
                  \<lparr>factor = ''Confidence Factor'', val = confidence_factor,
                    description = ''Adjustment based on analysis confidence''\<rparr>]
           in \<lparr>ClauseRisk.clause_id = ExtractedClause.clause_id clause,
               ClauseRisk.clause_type = ClauseType_value (ExtractedClause.clause_type clause),
               clause_title = ExtractedClause.title clause,
               clause_text_preview = take 300 (raw_text clause) @ ''...'',
               ClauseRisk.risk_score = final_score,
               ClauseRisk.risk_level = score_to_level final_score,
               contributing_factors = contributing_factors,
               ClauseRisk.violated_regulations = ComplianceAnalysis.violated_regulations analysis,
               ClauseRisk.recommendations = ComplianceAnalysis.recommendations analysis,
               ClauseRisk.explanation = ComplianceAnalysis.explanation analysis,
               ClauseRisk.confidence = ComplianceAnalysis.confidence analysis\<rparr>)
      | None \<Rightarrow>
          \<lparr>ClauseRisk.clause_id = ExtractedClause.clause_id clause,
           ClauseRisk.clause_type = ClauseType_value (ExtractedClause.clause_type clause),
           clause_title = ExtractedClause.title clause,
           clause_text_preview = take 300 (raw_text clause) @ ''...'',
           ClauseRisk.risk_score = 50,
           ClauseRisk.risk_level = MEDIUM,
           contributing_factors =
             [\<lparr>factor = ''Missing Analysis'', val = 50,
                description = ''Default score - analysis not available''\<rparr>],
           ClauseRisk.violated_regulations = [],
           ClauseRisk.recommendations = [''Manual review recommended''],
           ClauseRisk.explanation = ''Compliance analysis not available for this clause.'',
           ClauseRisk.confidence = 0.0\<rparr>)"

definition calculate_clause_risks ::
  "ExtractedClause list \<Rightarrow> ComplianceAnalysis list \<Rightarrow> ClauseRisk list" where
  "calculate_clause_risks cls analyses = map (clause_risk (analysis_map analyses)) cls"

subsection \<open>Weighted average and high-risk count\<close>

text \<open>
  \<open>_aggregate_by_category\<close> (locals \<open>total_weight\<close>, \<open>weighted_sum\<close>, \<open>avg_score\<close>) and
  \<open>_calculate_overall_score\<close> (locals \<open>total_weight\<close>, \<open>weighted_avg\<close>) compute the same
  guarded quotient over a list of clause risks.
\<close>

definition total_weight :: "ClauseRisk list \<Rightarrow> real" where
  "total_weight rs = sum_list (map (\<lambda>r. clause_weight (ClauseRisk.clause_type r)) rs)"

definition weighted_sum :: "ClauseRisk list \<Rightarrow> real" where
  "weighted_sum rs =
     sum_list (map (\<lambda>r. ClauseRisk.risk_score r * clause_weight (ClauseRisk.clause_type r)) rs)"

definition weighted_avg :: "ClauseRisk list \<Rightarrow> real" where
  "weighted_avg rs = (if total_weight rs > 0 then weighted_sum rs / total_weight rs else 0)"

text \<open>\<open>sum(1 for r in rs if r.risk_level in [RiskLevel.CRITICAL, RiskLevel.HIGH])\<close>\<close>

definition count_high_risk :: "ClauseRisk list \<Rightarrow> nat" where
  "count_high_risk rs = length (filter (\<lambda>r. ClauseRisk.risk_level r \<in> {CRITICAL, HIGH}) rs)"

subsection \<open>\<open>_aggregate_by_category\<close>\<close>

text \<open>
  The dict \<open>categories\<close> keeps its keys in the order of their first insertion, so it is a
  list of (category, risks) pairs: a new category goes to the end, a known one gets the
  risk appended to its list.
\<close>

fun add_to_category ::
  "ClauseRisk \<Rightarrow> (string \<times> ClauseRisk list) list \<Rightarrow> (string \<times> ClauseRisk list) list" where
  "add_to_category risk [] = [(ClauseRisk.clause_type risk, [risk])]"
| "add_to_category risk ((cat, risks) # categories) =
     (if cat = ClauseRisk.clause_type risk then (cat, risks @ [risk]) # categories
      else (cat, risks) # add_to_category risk categories)"

definition group_by_category :: "ClauseRisk list \<Rightarrow> (string \<times> ClauseRisk list) list" where
  "group_by_category clause_risks = fold add_to_category clause_risks []"

text \<open>
  The body of the loop over \<open>categories.items()\<close>. \<open>list(set(top_issues))\<close> depends on the
  iteration order of a Python set of strings, which the language leaves open: it is the
  parameter \<open>list_of_set\<close>.
\<close>

definition category_risk ::
  "(string list \<Rightarrow> string list) \<Rightarrow> string \<times> ClauseRisk list \<Rightarrow> CategoryRisk" where
  "category_risk list_of_set item =
     (case item of (cat, risks) \<Rightarrow>
        (let avg_score = weighted_avg risks;
             high_risk = count_high_risk risks;
             top_issues =
               concat (map (\<lambda>r. if ClauseRisk.violated_regulations r \<noteq> []
                                  then take 2 (ClauseRisk.violated_regulations r) else [])
                           (take 3 (sorted_reverse ClauseRisk.risk_score risks)));
             top_issues = take 5 (list_of_set top_issues)
         in \<lparr>category = cat,
             category_display = dict_get CATEGORY_DISPLAY_NAMES cat cat,
             CategoryRisk.risk_score = avg_score,
             CategoryRisk.risk_level = score_to_level avg_score,
             clause_count = length risks,
             high_risk_clauses = high_risk,
             top_issues = top_issues,
             clauses = risks\<rparr>))"

definition aggregate_by_category ::
  "(string list \<Rightarrow> string list) \<Rightarrow> ClauseRisk list \<Rightarrow> CategoryRisk list" where
  "aggregate_by_category list_of_set clause_risks =
     sorted_reverse CategoryRisk.risk_score
       (map (category_risk list_of_set) (group_by_category clause_risks))"

subsection \<open>\<open>_calculate_overall_score\<close>\<close>

text \<open>
  The locals of the non-empty branch, each as a function of the non-empty list \<open>r # rs\<close>.
  \<open>max(r.risk_score for r in clause_risks)\<close> is only reached there.
\<close>

definition max_risk :: "ClauseRisk \<Rightarrow> ClauseRisk list \<Rightarrow> real" where
  "max_risk r rs = fold max (map ClauseRisk.risk_score rs) (ClauseRisk.risk_score r)"

definition max_penalty :: "ClauseRisk \<Rightarrow> ClauseRisk list \<Rightarrow> real" where
  "max_penalty r rs =
     (if max_risk r rs > weighted_avg (r # rs)
      then (max_risk r rs - weighted_avg (r # rs)) * 0.3 else 0)"

definition density :: "ClauseRisk \<Rightarrow> ClauseRisk list \<Rightarrow> real" where
  "density r rs = real (count_high_risk (r # rs)) / real (length (r # rs))"

definition density_penalty :: "ClauseRisk \<Rightarrow> ClauseRisk list \<Rightarrow> real" where
  "density_penalty r rs = density r rs * 20"

text \<open>The value of \<open>overall\<close> before the clamp.\<close>

definition overall_unclamped :: "ClauseRisk \<Rightarrow> ClauseRisk list \<Rightarrow> real" where
  "overall_unclamped r rs = weighted_avg (r # rs) * 0.6 + max_penalty r rs + density_penalty r rs"

text \<open>The value of the key \<open>formula\<close>; the two characters after \<open>weighted_avg\<close> are not
  ASCII and are given by their UTF-8 bytes.\<close>

definition formula_text :: string where
  "formula_text = ''overall = (weighted_avg '' @ [CHR 0xC3, CHR 0x83, CHR 0xE2, CHR 0x80, CHR 0x94]
                  @ '' 0.6) + max_penalty + density_penalty''"

fun calculate_overall_score ::
  "ClauseRisk list \<Rightarrow> CategoryRisk list \<Rightarrow> real \<times> Breakdown option" where
  "calculate_overall_score [] cat_risks = (0.0, None)"
| "calculate_overall_score (r # rs) cat_risks =
     (let overall = overall_unclamped r rs;
          overall = min 100 (max 0 overall);
          breakdown =
            \<lparr>weighted_average_value = round2 (weighted_avg (r # rs)),
             weighted_average_weight = 0.6,
             weighted_average_contribution = round2 (weighted_avg (r # rs) * 0.6),
             max_clause_score = round2 (max_risk r rs),
             max_risk_penalty = round2 (max_penalty r rs),
             high_risk_count = count_high_risk (r # rs),
             total_clauses = length (r # rs),
             high_risk_density = round2 (density r rs),
             high_risk_density_penalty = round2 (density_penalty r rs),
             formula = formula_text\<rparr>
      in (overall, Some breakdown))"

subsection \<open>\<open>_collect_citations\<close>\<close>

text \<open>The state of the two nested loops is the pair of \<open>citations\<close> (here \<open>cits\<close>) and
  \<open>seen_ids\<close>.\<close>

definition add_citation ::
  "RetrievedContext \<Rightarrow> Citation list \<times> string set \<Rightarrow> Citation list \<times> string set" where
  "add_citation reg st =
     (case st of (cits, seen_ids) \<Rightarrow>
        if RetrievedContext.regulation_id reg \<notin> seen_ids
        then (cits @
                [\<lparr>Citation.regulation_id = RetrievedContext.regulation_id reg,
                  Citation.title = RetrievedContext.title reg,
                  Citation.source_url = RetrievedContext.source_url reg,
                  Citation.regulation_type = RetrievedContext.regulation_type reg\<rparr>],
              insert (RetrievedContext.regulation_id reg) seen_ids)
        else (cits, seen_ids))"

definition collect_citations :: "ComplianceAnalysis list \<Rightarrow> Citation list" where
  "collect_citations analyses =
     fst (fold (\<lambda>analysis st. fold add_citation (matched_regulations analysis) st)
               analyses ([], {}))"

subsection \<open>\<open>calculate_risk_report\<close>\<close>

definition calculate_risk_report ::
  "(string list \<Rightarrow> string list) \<Rightarrow> string \<Rightarrow> ExtractedClause list \<Rightarrow> ComplianceAnalysis list
     \<Rightarrow> ContractRiskReport" where
  "calculate_risk_report list_of_set doc_id cls analyses =
     (let clause_risks = calculate_clause_risks cls analyses;
          category_risks = aggregate_by_category list_of_set clause_risks;
          (overall_score, breakdown) = calculate_overall_score clause_risks category_risks;
          overall_level = score_to_level overall_score;
          top_risks = take 5 (sorted_reverse ClauseRisk.risk_score clause_risks);
          high_risk_count = length (filter (\<lambda>r. ClauseRisk.risk_level r \<in> {CRITICAL, HIGH}) clause_risks);
          medium_risk_count = length (filter (\<lambda>r. ClauseRisk.risk_level r = MEDIUM) clause_risks);
          low_risk_count = length (filter (\<lambda>r. ClauseRisk.risk_level r \<in> {LOW, MINIMAL}) clause_risks);
          citations = collect_citations analyses;
          avg_confidence =
            (if clause_risks \<noteq> []
             then sum_list (map ClauseRisk.confidence clause_risks) / real (length clause_risks)
             else 0)
      in \<lparr>document_id = doc_id,
          overall_risk_score = overall_score,
          overall_risk_level = overall_level,
          total_clauses_analyzed = length clause_risks,
          high_risk_clause_count = high_risk_count,
          medium_risk_clause_count = medium_risk_count,
          low_risk_clause_count = low_risk_count,
          category_risks = category_risks,
          top_risks = top_risks,
          all_clause_risks = clause_risks,
          citations = citations,
          ContractRiskReport.confidence = avg_confidence,
          scoring_breakdown = breakdown\<rparr>)"

subsection \<open>The formulas in the words of the specification\<close>

text \<open>
  These definitions follow the text of the specification, not the code; the theorems
  below compare them with the functions above.
\<close>

definition clamp :: "real \<Rightarrow> real \<Rightarrow> real \<Rightarrow> real" where
  "clamp x lo hi = (if x < lo then lo else if hi < x then hi else x)"

text \<open>Clause score: \<open>weighted = min(100, base * weight)\<close>,
  \<open>confidence_factor = 0.5 + 0.5 * confidence\<close>, \<open>final = weighted * confidence_factor\<close>
  clamped to [0,100].\<close>

definition spec_clause_score :: "real \<Rightarrow> real \<Rightarrow> real \<Rightarrow> real" where
  "spec_clause_score base weight conf = clamp (min 100 (base * weight) * (0.5 + 0.5 * conf)) 0 100"

text \<open>Term A, the weight-weighted average of all clause risk scores.\<close>

definition term_A :: "ClauseRisk list \<Rightarrow> real" where
  "term_A rs =
     (\<Sum>r\<leftarrow>rs. ClauseRisk.risk_score r * clause_weight (ClauseRisk.clause_type r)) /
     (\<Sum>r\<leftarrow>rs. clause_weight (ClauseRisk.clause_type r))"

text \<open>Term B, \<open>max(0, max(clauseScores) - A) * 0.3\<close>.\<close>

definition term_B :: "ClauseRisk list \<Rightarrow> real" where
  "term_B rs = max 0 (Max (set (map ClauseRisk.risk_score rs)) - term_A rs) * 0.3"

text \<open>Term C, (count of clauses at level high or critical / total clause count) * 20.\<close>

definition term_C :: "ClauseRisk list \<Rightarrow> real" where
  "term_C rs =
     real (length [r\<leftarrow>rs. ClauseRisk.risk_level r = HIGH \<or> ClauseRisk.risk_level r = CRITICAL]) /
     real (length rs) * 20"

definition spec_overall :: "ClauseRisk list \<Rightarrow> real" where
  "spec_overall rs = clamp (term_A rs * 0.6 + term_B rs + term_C rs) 0 100"

text \<open>
  Stable deduplication: the elements of \<open>xs\<close>, in order, whose key does not occur at an
  earlier position.
\<close>

definition first_occurrences :: "('a \<Rightarrow> 'k) \<Rightarrow> 'a list \<Rightarrow> 'a list" where
  "first_occurrences key xs =
     concat (map (\<lambda>i. if key (xs ! i) \<in> key ` set (take i xs) then [] else [xs ! i])
                 [0..<length xs])"

subsection \<open>Sample inputs\<close>

definition sample_clause :: "string \<Rightarrow> ClauseType \<Rightarrow> ExtractedClause" where
  "sample_clause cid t =
     \<lparr>ExtractedClause.clause_id = cid, ExtractedClause.clause_type = t,
      ExtractedClause.title = ''Clause'', raw_text = ''Text of the clause''\<rparr>"

definition sample_analysis :: "string \<Rightarrow> real \<Rightarrow> real \<Rightarrow> ComplianceAnalysis" where
  "sample_analysis cid score conf =
     \<lparr>ComplianceAnalysis.clause_id = cid, ComplianceAnalysis.clause_type = ''unknown'',
      clause_text = ''Text of the clause'', is_compliant = False,
      ComplianceAnalysis.risk_level = ''medium'', ComplianceAnalysis.risk_score = score,
      ComplianceAnalysis.violated_regulations = [], matched_regulations = [],
      ComplianceAnalysis.explanation = ''Explanation'', reasoning_chain = [],
      ComplianceAnalysis.recommendations = [], ComplianceAnalysis.confidence = conf\<rparr>"

text \<open>Two clauses, the first with an analysis (score 60, confidence 0.8), the second
  without one.\<close>

definition sample_clauses :: "ExtractedClause list" where
  "sample_clauses = [sample_clause ''c1'' DATA_PROTECTION, sample_clause ''c2'' LIABILITY]"

definition sample_analyses :: "ComplianceAnalysis list" where
  "sample_analyses = [sample_analysis ''c1'' 60 0.8]"

text \<open>A clause risk given by its category, score and level.\<close>

definition sample_risk :: "string \<Rightarrow> real \<Rightarrow> RiskLevel \<Rightarrow> ClauseRisk" where
  "sample_risk t score level =
     \<lparr>ClauseRisk.clause_id = ''c1'', ClauseRisk.clause_type = t, clause_title = ''Clause'',
      clause_text_preview = ''Text...'', ClauseRisk.risk_score = score,
      ClauseRisk.risk_level = level, contributing_factors = [],
      ClauseRisk.violated_regulations = [], ClauseRisk.recommendations = [],
      ClauseRisk.explanation = ''Explanation'', ClauseRisk.confidence = 1\<rparr>"

text \<open>A matched regulation given by its id and title.\<close>

definition sample_regulation :: "string \<Rightarrow> string \<Rightarrow> RetrievedContext" where
  "sample_regulation rid t =
     \<lparr>RetrievedContext.regulation_id = rid, article_number = ''1'',
      RetrievedContext.title = t, context_text = ''Text'', relevance_score = 1,
      RetrievedContext.source_url = ''https://example.org/'' @ rid,
      RetrievedContext.regulation_type = ''gdpr''\<rparr>"

section \<open>Properties\<close>

subsection \<open>Weights and the weighted average\<close>

lemma clause_weight_pos: "0 < clause_weight t"
  by (simp add: clause_weight_def dict_get_def CLAUSE_TYPE_WEIGHTS_def)

lemma clause_weight_value:
  "clause_weight ''data_protection'' = 1.5"
  "clause_weight ''liability'' = 1.4"
  "clause_weight ''payment_terms'' = 1"
  by (simp_all add: clause_weight_def dict_get_def CLAUSE_TYPE_WEIGHTS_def)

lemma total_weight_Cons:
  "total_weight (r # rs) = clause_weight (ClauseRisk.clause_type r) + total_weight rs"
  by (simp add: total_weight_def)

lemma total_weight_nonneg: "0 \<le> total_weight rs"
proof (induction rs)
  case Nil
  show ?case by (simp add: total_weight_def)
next
  case (Cons r rs)
  from clause_weight_pos [of "ClauseRisk.clause_type r"] Cons show ?case
    by (simp add: total_weight_Cons)
qed

lemma total_weight_pos: "0 < total_weight (r # rs)"
  using clause_weight_pos [of "ClauseRisk.clause_type r"] total_weight_nonneg [of rs]
  by (simp add: total_weight_Cons)

lemma weighted_avg_nonempty: "weighted_avg (r # rs) = weighted_sum (r # rs) / total_weight (r # rs)"
  using total_weight_pos [of r rs] by (simp add: weighted_avg_def)

lemma max_risk_Max: "max_risk r rs = Max (set (map ClauseRisk.risk_score (r # rs)))"
  unfolding max_risk_def by (simp only: list.map Max.set_eq_fold)

subsection \<open>The classifier and the stored levels\<close>

lemma score_to_level_iff:
  "(score_to_level s = CRITICAL \<longleftrightarrow> 80 \<le> s) \<and>
   (score_to_level s = HIGH \<longleftrightarrow> 60 \<le> s \<and> s < 80) \<and>
   (score_to_level s = MEDIUM \<longleftrightarrow> 40 \<le> s \<and> s < 60) \<and>
   (score_to_level s = LOW \<longleftrightarrow> 20 \<le> s \<and> s < 40) \<and>
   (score_to_level s = MINIMAL \<longleftrightarrow> s < 20)"
  by (simp add: score_to_level_def)

lemma clause_risk_level:
  "ClauseRisk.risk_level (clause_risk m c) = score_to_level (ClauseRisk.risk_score (clause_risk m c))"
  by (simp add: clause_risk_def Let_def score_to_level_def split: option.split)

lemma calculate_clause_risks_level:
  "r \<in> set (calculate_clause_risks cls analyses) \<Longrightarrow>
   ClauseRisk.risk_level r = score_to_level (ClauseRisk.risk_score r)"
  by (auto simp: calculate_clause_risks_def clause_risk_level)

lemma set_sorted_reverse: "set (sorted_reverse k xs) = set xs"
  by (simp add: sorted_reverse_def)

lemma category_risk_level:
  "CategoryRisk.risk_level (category_risk los item) =
   score_to_level (CategoryRisk.risk_score (category_risk los item))"
  by (simp add: category_risk_def Let_def split: prod.split)

lemma aggregate_by_category_level:
  "c \<in> set (aggregate_by_category los crs) \<Longrightarrow>
   CategoryRisk.risk_level c = score_to_level (CategoryRisk.risk_score c)"
  by (auto simp: aggregate_by_category_def set_sorted_reverse category_risk_level)

lemma group_by_category_snoc:
  "group_by_category (rs @ [r]) = add_to_category r (group_by_category rs)"
  by (simp add: group_by_category_def)

lemma add_to_category_risks:
  "(\<Union>item \<in> set (add_to_category r g). set (snd item)) = insert r (\<Union>item \<in> set g. set (snd item))"
  by (induction r g rule: add_to_category.induct) auto

lemma group_by_category_risks:
  "(\<Union>item \<in> set (group_by_category rs). set (snd item)) = set rs"
  by (induction rs rule: rev_induct)
     (simp_all add: group_by_category_snoc add_to_category_risks, simp add: group_by_category_def)

lemma clauses_of_category_risk: "clauses (category_risk los item) = snd item"
  by (simp add: category_risk_def Let_def split: prod.split)

lemma aggregate_by_category_clauses:
  assumes "c \<in> set (aggregate_by_category los rs)" and "r \<in> set (clauses c)"
  shows "r \<in> set rs"
proof -
  from assms(1) obtain item
    where item: "item \<in> set (group_by_category rs)" "c = category_risk los item"
    by (auto simp: aggregate_by_category_def set_sorted_reverse)
  with assms(2) have "r \<in> set (snd item)"
    by (simp add: clauses_of_category_risk)
  with item(1) have "r \<in> (\<Union>item \<in> set (group_by_category rs). set (snd item))"
    by blast
  then show ?thesis
    by (simp only: group_by_category_risks)
qed

lemma report_fields:
  "all_clause_risks (calculate_risk_report los d cls an) = calculate_clause_risks cls an"
  "category_risks (calculate_risk_report los d cls an) =
     aggregate_by_category los (calculate_clause_risks cls an)"
  "top_risks (calculate_risk_report los d cls an) =
     take 5 (sorted_reverse ClauseRisk.risk_score (calculate_clause_risks cls an))"
  "overall_risk_score (calculate_risk_report los d cls an) =
     fst (calculate_overall_score (calculate_clause_risks cls an)
            (aggregate_by_category los (calculate_clause_risks cls an)))"
  "overall_risk_level (calculate_risk_report los d cls an) =
     score_to_level (overall_risk_score (calculate_risk_report los d cls an))"
  "citations (calculate_risk_report los d cls an) = collect_citations an"
  by (simp_all add: calculate_risk_report_def Let_def split: prod.split)

text \<open>
  C5: the classifier maps a score to critical from 80, high from 60, medium from 40, low
  from 20 and minimal below; and in every report each clause risk (the default of a
  missing analysis included), each top risk, each category risk, each clause risk held by
  a category risk and the report itself store as their level the classifier's value at
  their stored score.
\<close>

theorem risk_level_is_classifier:
  "(score_to_level s = CRITICAL \<longleftrightarrow> 80 \<le> s) \<and>
   (score_to_level s = HIGH \<longleftrightarrow> 60 \<le> s \<and> s < 80) \<and>
   (score_to_level s = MEDIUM \<longleftrightarrow> 40 \<le> s \<and> s < 60) \<and>
   (score_to_level s = LOW \<longleftrightarrow> 20 \<le> s \<and> s < 40) \<and>
   (score_to_level s = MINIMAL \<longleftrightarrow> s < 20) \<and>
   (\<forall>r \<in> set (all_clause_risks (calculate_risk_report los d cls an)).
      ClauseRisk.risk_level r = score_to_level (ClauseRisk.risk_score r)) \<and>
   (\<forall>r \<in> set (top_risks (calculate_risk_report los d cls an)).
      ClauseRisk.risk_level r = score_to_level (ClauseRisk.risk_score r)) \<and>
   (\<forall>c \<in> set (category_risks (calculate_risk_report los d cls an)).
      CategoryRisk.risk_level c = score_to_level (CategoryRisk.risk_score c)) \<and>
   (\<forall>c \<in> set (category_risks (calculate_risk_report los d cls an)).
      \<forall>r \<in> set (clauses c).
        ClauseRisk.risk_level r = score_to_level (ClauseRisk.risk_score r)) \<and>
   overall_risk_level (calculate_risk_report los d cls an) =
     score_to_level (overall_risk_score (calculate_risk_report los d cls an))"
proof -
  have nested: "\<forall>c \<in> set (category_risks (calculate_risk_report los d cls an)).
      \<forall>r \<in> set (clauses c).
        ClauseRisk.risk_level r = score_to_level (ClauseRisk.risk_score r)"
    unfolding report_fields
    by (blast intro: calculate_clause_risks_level dest: aggregate_by_category_clauses)
  have top: "r \<in> set (calculate_clause_risks cls an)"
    if "r \<in> set (take 5 (sorted_reverse ClauseRisk.risk_score (calculate_clause_risks cls an)))" for r
    using that set_sorted_reverse [of ClauseRisk.risk_score "calculate_clause_risks cls an"]
    by (auto dest: in_set_takeD)
  have "\<forall>r \<in> set (top_risks (calculate_risk_report los d cls an)).
      ClauseRisk.risk_level r = score_to_level (ClauseRisk.risk_score r)"
    using top by (auto simp: report_fields intro: calculate_clause_risks_level)
  with nested show ?thesis
    using score_to_level_iff [of s]
    by (simp add: report_fields(1,2,5) calculate_clause_risks_level aggregate_by_category_level)
qed

theorem risk_level_is_classifier_witness:
  "last (all_clause_risks (calculate_risk_report remdups ''doc'' sample_clauses sample_analyses))
     \<in> set (all_clause_risks (calculate_risk_report remdups ''doc'' sample_clauses sample_analyses)) \<and>
   ClauseRisk.risk_score
     (last (all_clause_risks (calculate_risk_report remdups ''doc'' sample_clauses sample_analyses)))
     = 50 \<and>
   ClauseRisk.risk_level
     (last (all_clause_risks (calculate_risk_report remdups ''doc'' sample_clauses sample_analyses)))
     = score_to_level 50"
proof -
  let ?rs = "all_clause_risks (calculate_risk_report remdups ''doc'' sample_clauses sample_analyses)"
  have rs: "?rs = calculate_clause_risks sample_clauses sample_analyses"
    by (simp add: report_fields)
  have mem: "last ?rs \<in> set ?rs"
    unfolding rs by (simp add: calculate_clause_risks_def sample_clauses_def)
  have score: "ClauseRisk.risk_score (last ?rs) = 50"
    unfolding rs
    by (simp add: calculate_clause_risks_def clause_risk_def analysis_map_def
        sample_clauses_def sample_analyses_def sample_clause_def sample_analysis_def)
  from risk_level_is_classifier [of 50 remdups "''doc''" sample_clauses sample_analyses] mem
  have "ClauseRisk.risk_level (last ?rs) = score_to_level (ClauseRisk.risk_score (last ?rs))"
    by blast
  with mem score show ?thesis by simp
qed

subsection \<open>Level counts\<close>

lemma count_partition:
  "length (filter (\<lambda>r. ClauseRisk.risk_level r \<in> {CRITICAL, HIGH}) rs)
   + length (filter (\<lambda>r. ClauseRisk.risk_level r = MEDIUM) rs)
   + length (filter (\<lambda>r. ClauseRisk.risk_level r \<in> {LOW, MINIMAL}) rs) = length rs"
proof (induction rs)
  case Nil
  show ?case by simp
next
  case (Cons r rs)
  then show ?case by (cases "ClauseRisk.risk_level r") simp_all
qed

text \<open>
  C6: in every report the count of high or critical clauses, the count of medium clauses
  and the count of low or minimal clauses add up to the number of clauses analyzed, which
  is the number of clauses given.
\<close>

theorem level_counts_sum_to_total:
  "high_risk_clause_count (calculate_risk_report los d cls an)
   + medium_risk_clause_count (calculate_risk_report los d cls an)
   + low_risk_clause_count (calculate_risk_report los d cls an)
   = total_clauses_analyzed (calculate_risk_report los d cls an)
   \<and> total_clauses_analyzed (calculate_risk_report los d cls an) = length cls"
  using count_partition [of "calculate_clause_risks cls an"]
  by (simp add: calculate_risk_report_def Let_def calculate_clause_risks_def split: prod.split)

subsection \<open>Clauses without an analysis\<close>

lemma fold_analysis_dom:
  "dom (fold (\<lambda>a m. m(ComplianceAnalysis.clause_id a \<mapsto> a)) analyses m) =
   dom m \<union> ComplianceAnalysis.clause_id ` set analyses"
  by (induction analyses arbitrary: m) auto

lemma analysis_map_None:
  "analysis_map analyses k = None \<longleftrightarrow> k \<notin> ComplianceAnalysis.clause_id ` set analyses"
proof -
  have "dom (analysis_map analyses) = ComplianceAnalysis.clause_id ` set analyses"
    using fold_analysis_dom [of analyses Map.empty] by (simp add: analysis_map_def)
  then show ?thesis
    using domIff [of k "analysis_map analyses"] by blast
qed

text \<open>
  C4: a clause whose id is the clause id of no analysis gets a clause risk with score 50,
  level medium, confidence 0, the single contributing factor "Missing Analysis", the
  explanation that the compliance analysis is not available and the recommendation of a
  manual review. The function is total: no step of this path can raise.
\<close>

theorem missing_analysis_default:
  assumes "i < length cls"
    and "ExtractedClause.clause_id (cls ! i) \<notin> ComplianceAnalysis.clause_id ` set analyses"
  shows "calculate_clause_risks cls analyses ! i =
     \<lparr>ClauseRisk.clause_id = ExtractedClause.clause_id (cls ! i),
      ClauseRisk.clause_type = ClauseType_value (ExtractedClause.clause_type (cls ! i)),
      clause_title = ExtractedClause.title (cls ! i),
      clause_text_preview = take 300 (raw_text (cls ! i)) @ ''...'',
      ClauseRisk.risk_score = 50,
      ClauseRisk.risk_level = MEDIUM,
      contributing_factors =
        [\<lparr>factor = ''Missing Analysis'', val = 50,
           description = ''Default score - analysis not available''\<rparr>],
      ClauseRisk.violated_regulations = [],
      ClauseRisk.recommendations = [''Manual review recommended''],
      ClauseRisk.explanation = ''Compliance analysis not available for this clause.'',
      ClauseRisk.confidence = 0\<rparr>"
proof -
  from assms(2) have "analysis_map analyses (ExtractedClause.clause_id (cls ! i)) = None"
    by (simp add: analysis_map_None)
  with assms(1) show ?thesis
    by (simp add: calculate_clause_risks_def clause_risk_def)
qed

theorem missing_analysis_default_witness:
  "map factor (contributing_factors (calculate_clause_risks sample_clauses sample_analyses ! 1))
     = [''Missing Analysis''] \<and>
   ClauseRisk.risk_score (calculate_clause_risks sample_clauses sample_analyses ! 1) = 50 \<and>
   ClauseRisk.risk_level (calculate_clause_risks sample_clauses sample_analyses ! 1) = MEDIUM \<and>
   ClauseRisk.confidence (calculate_clause_risks sample_clauses sample_analyses ! 1) = 0 \<and>
   ClauseRisk.clause_id (calculate_clause_risks sample_clauses sample_analyses ! 1) = ''c2''"
proof -
  have len: "1 < length sample_clauses"
    by (simp add: sample_clauses_def)
  have miss: "ExtractedClause.clause_id (sample_clauses ! 1)
              \<notin> ComplianceAnalysis.clause_id ` set sample_analyses"
    by (simp add: sample_clauses_def sample_analyses_def sample_clause_def sample_analysis_def)
  have cid: "ExtractedClause.clause_id (sample_clauses ! 1) = ''c2''"
    by (simp add: sample_clauses_def sample_clause_def)
  show ?thesis
    using missing_analysis_default [OF len miss] cid by simp
qed

subsection \<open>Clauses with an analysis\<close>

lemma clause_risk_score:
  "amap (ExtractedClause.clause_id c) = Some a \<Longrightarrow>
   ClauseRisk.risk_score (clause_risk amap c) =
     min 100 (ComplianceAnalysis.risk_score a
              * clause_weight (ClauseType_value (ExtractedClause.clause_type c)))
     * (0.5 + 0.5 * ComplianceAnalysis.confidence a)"
  by (simp add: clause_risk_def Let_def)

lemma clause_risk_score_in_range:
  assumes "amap (ExtractedClause.clause_id c) = Some a"
    and "0 \<le> ComplianceAnalysis.risk_score a"
    and "0 \<le> ComplianceAnalysis.confidence a" and "ComplianceAnalysis.confidence a \<le> 1"
  shows "ClauseRisk.risk_score (clause_risk amap c) =
     spec_clause_score (ComplianceAnalysis.risk_score a)
       (clause_weight (ClauseType_value (ExtractedClause.clause_type c)))
       (ComplianceAnalysis.confidence a)"
proof -
  let ?w = "min 100 (ComplianceAnalysis.risk_score a
              * clause_weight (ClauseType_value (ExtractedClause.clause_type c)))"
  let ?f = "0.5 + 0.5 * ComplianceAnalysis.confidence a"
  have w: "0 \<le> ?w" "?w \<le> 100"
    using assms(2) clause_weight_pos [of "ClauseType_value (ExtractedClause.clause_type c)"]
    by simp_all
  have f: "0 \<le> ?f" "?f \<le> 1" using assms(3,4) by simp_all
  have "0 \<le> ?w * ?f" using w(1) f(1) by (rule mult_nonneg_nonneg)
  moreover have "?w * ?f \<le> 100 * 1" using w f by (intro mult_mono) simp_all
  ultimately show ?thesis
    using clause_risk_score [of amap c a] assms(1) by (simp add: spec_clause_score_def clamp_def)
qed

lemma scenario_A:
  "ClauseRisk.risk_score (clause_risk (analysis_map [sample_analysis ''c1'' 60 0.8])
      (sample_clause ''c1'' DATA_PROTECTION)) = 81 \<and>
   ClauseRisk.risk_level (clause_risk (analysis_map [sample_analysis ''c1'' 60 0.8])
      (sample_clause ''c1'' DATA_PROTECTION)) = CRITICAL"
  by (simp add: clause_risk_def analysis_map_def sample_clause_def sample_analysis_def
      clause_weight_value score_to_level_def Let_def)

text \<open>
  C2: the clause score of the claim is \<open>spec_clause_score\<close>, with a final clamp to
  [0,100]. The code computes the product without the clamp (\<open>clause_risk_score\<close>); the two
  agree for a score of at least 0 and a confidence in [0,1] (\<open>clause_risk_score_in_range\<close>),
  scenario A included (\<open>scenario_A\<close>: 81, critical). For a payment-terms clause (weight 1)
  with score 100 and confidence 2 the code stores 150, the claim's formula gives 100.
\<close>

theorem clause_score_exceeds_100:
  "ClauseRisk.risk_score (clause_risk (analysis_map [sample_analysis ''c1'' 100 2])
      (sample_clause ''c1'' PAYMENT_TERMS)) = 150 \<and>
   spec_clause_score 100 (clause_weight (ClauseType_value PAYMENT_TERMS)) 2 = 100"
  by (simp add: clause_risk_def analysis_map_def sample_clause_def sample_analysis_def
      clause_weight_value spec_clause_score_def clamp_def Let_def)

text \<open>
  C3: clause risk scores leave [0,100] when the analysis is out of range: a score of -10
  at confidence 1 is stored as -10, a score of 100 at confidence 2 as 150.
\<close>

theorem clause_risks_out_of_range:
  "map ClauseRisk.risk_score
     (calculate_clause_risks
        [sample_clause ''c1'' PAYMENT_TERMS, sample_clause ''c2'' PAYMENT_TERMS]
        [sample_analysis ''c1'' (- 10) 1, sample_analysis ''c2'' 100 2]) = [- 10, 150]"
  by (simp add: calculate_clause_risks_def clause_risk_def analysis_map_def sample_clause_def
      sample_analysis_def clause_weight_value Let_def)

subsection \<open>The overall score\<close>

lemma term_A_eq: "term_A (r # rs) = weighted_avg (r # rs)"
  by (simp only: term_A_def weighted_avg_nonempty weighted_sum_def total_weight_def)

lemma term_B_eq: "term_B (r # rs) = max_penalty r rs"
proof -
  have "term_B (r # rs) = max 0 (max_risk r rs - weighted_avg (r # rs)) * 0.3"
    unfolding term_B_def term_A_eq max_risk_Max by (rule refl)
  also have "\<dots> = max_penalty r rs"
    unfolding max_penalty_def max_def by (auto simp: not_less)
  finally show ?thesis .
qed

lemma term_C_eq: "term_C (r # rs) = density_penalty r rs"
proof -
  have "[x\<leftarrow>r # rs. ClauseRisk.risk_level x = HIGH \<or> ClauseRisk.risk_level x = CRITICAL]
      = [x\<leftarrow>r # rs. ClauseRisk.risk_level x \<in> {CRITICAL, HIGH}]"
    by (rule filter_cong) auto
  then show ?thesis
    unfolding term_C_def density_penalty_def density_def count_high_risk_def by (rule arg_cong)
qed

lemma clamp_min_max: "clamp x 0 100 = min 100 (max 0 x)"
  by (simp add: clamp_def)

text \<open>
  C1: for a non-empty list of clause risks the overall score is the clamp to [0,100] of
  A * 0.6 + B + C, with A the weight-weighted average of the clause scores, B = max(0,
  max score - A) * 0.3 and C = (clauses at level high or critical / all clauses) * 20; for
  the empty list the score is 0 and the breakdown is empty.
\<close>

theorem overall_score_formula:
  "fst (calculate_overall_score (r # rs) cats) = spec_overall (r # rs) \<and>
   calculate_overall_score [] cats = (0, None)"
  by (simp add: spec_overall_def term_A_eq term_B_eq term_C_eq clamp_min_max
      overall_unclamped_def Let_def del: min.absorb1 min.absorb2 max.absorb1 max.absorb2)

subsection \<open>Raising one score\<close>

text \<open>
  C7: raising the risk score of one analysis, all else fixed, should never lower the
  overall score. The clause score is the weighted score times \<open>0.5 + 0.5 * confidence\<close>,
  and nothing bounds the confidence: at confidence -3 the factor is -1. With a clause of
  score 100 beside it, raising the score of such a clause from 10 to 20 takes its clause
  score from -10 to -20 and the overall score of the report from 53.5 down to 52.
\<close>

theorem overall_score_not_monotone:
  "overall_risk_score (calculate_risk_report remdups ''doc''
       [sample_clause ''c1'' PAYMENT_TERMS, sample_clause ''c2'' PAYMENT_TERMS]
       [sample_analysis ''c1'' 100 1, sample_analysis ''c2'' 10 (- 3)]) = 107 / 2 \<and>
   overall_risk_score (calculate_risk_report remdups ''doc''
       [sample_clause ''c1'' PAYMENT_TERMS, sample_clause ''c2'' PAYMENT_TERMS]
       [sample_analysis ''c1'' 100 1, sample_analysis ''c2'' 20 (- 3)]) = 52 \<and>
   overall_risk_score (calculate_risk_report remdups ''doc''
       [sample_clause ''c1'' PAYMENT_TERMS, sample_clause ''c2'' PAYMENT_TERMS]
       [sample_analysis ''c1'' 100 1, sample_analysis ''c2'' 20 (- 3)])
   < overall_risk_score (calculate_risk_report remdups ''doc''
       [sample_clause ''c1'' PAYMENT_TERMS, sample_clause ''c2'' PAYMENT_TERMS]
       [sample_analysis ''c1'' 100 1, sample_analysis ''c2'' 10 (- 3)])"
  by (simp add: report_fields(4) calculate_clause_risks_def analysis_map_def clause_risk_def sample_analysis_def
      sample_clause_def clause_weight_value score_to_level_def Let_def overall_unclamped_def
      max_penalty_def max_risk_def density_penalty_def density_def count_high_risk_def
      weighted_avg_def weighted_sum_def total_weight_def)

subsection \<open>First occurrences\<close>

lemma first_occurrences_Nil: "first_occurrences key [] = []"
  by (simp add: first_occurrences_def)

lemma first_occurrences_snoc:
  "first_occurrences key (xs @ [x]) =
   first_occurrences key xs @ (if key x \<in> key ` set xs then [] else [x])"
proof -
  define g where
    "g = (\<lambda>ys i. if key (ys ! i) \<in> key ` set (take i ys) then [] else [ys ! i])"
  have fo: "first_occurrences key ys = concat (map (g ys) [0..<length ys])" for ys
    by (simp add: first_occurrences_def g_def)
  have same: "map (g (xs @ [x])) [0..<length xs] = map (g xs) [0..<length xs]"
    by (rule map_cong) (simp_all add: g_def nth_append)
  have new: "g (xs @ [x]) (length xs) = (if key x \<in> key ` set xs then [] else [x])"
    by (simp add: g_def)
  show ?thesis
    unfolding fo by (simp add: same new)
qed

lemma first_occurrences_keys: "key ` set (first_occurrences key xs) = key ` set xs"
  by (induction xs rule: rev_induct) (auto simp: first_occurrences_Nil first_occurrences_snoc)

lemma first_occurrences_distinct: "distinct (map key (first_occurrences key xs))"
proof (induction xs rule: rev_induct)
  case Nil
  show ?case by (simp add: first_occurrences_Nil)
next
  case (snoc x xs)
  then show ?case
    using first_occurrences_keys [of key xs] by (auto simp: first_occurrences_snoc)
qed

subsection \<open>Citations\<close>

lemma fold_add_citation:
  "fold add_citation regs ([], {}) =
     (map (\<lambda>reg. \<lparr>Citation.regulation_id = RetrievedContext.regulation_id reg,
                   Citation.title = RetrievedContext.title reg,
                   Citation.source_url = RetrievedContext.source_url reg,
                   Citation.regulation_type = RetrievedContext.regulation_type reg\<rparr>)
          (first_occurrences RetrievedContext.regulation_id regs),
      RetrievedContext.regulation_id ` set regs)"
proof (induction regs rule: rev_induct)
  case Nil
  show ?case by (simp add: first_occurrences_Nil)
next
  case (snoc reg regs)
  have "fold add_citation (regs @ [reg]) ([], {}) =
        add_citation reg (fold add_citation regs ([], {}))"
    by simp
  also have "\<dots> = add_citation reg
       (map (\<lambda>reg. \<lparr>Citation.regulation_id = RetrievedContext.regulation_id reg,
                   Citation.title = RetrievedContext.title reg,
                   Citation.source_url = RetrievedContext.source_url reg,
                   Citation.regulation_type = RetrievedContext.regulation_type reg\<rparr>)
          (first_occurrences RetrievedContext.regulation_id regs),
        RetrievedContext.regulation_id ` set regs)"
    by (simp only: snoc)
  also have "\<dots> =
       (map (\<lambda>reg. \<lparr>Citation.regulation_id = RetrievedContext.regulation_id reg,
                   Citation.title = RetrievedContext.title reg,
                   Citation.source_url = RetrievedContext.source_url reg,
                   Citation.regulation_type = RetrievedContext.regulation_type reg\<rparr>)
          (first_occurrences RetrievedContext.regulation_id (regs @ [reg])),
        RetrievedContext.regulation_id ` set (regs @ [reg]))"
    by (auto simp: add_citation_def first_occurrences_snoc)
  finally show ?case .
qed

lemma fold_matched_regulations:
  "fold (\<lambda>analysis st. fold add_citation (matched_regulations analysis) st) analyses st =
   fold add_citation (concat (map matched_regulations analyses)) st"
  by (induction analyses arbitrary: st) simp_all

text \<open>
  C9: the citation list is obtained by walking the matched regulations of all analyses in
  input order and keeping the first occurrence of each regulation id; a kept citation
  carries the id, title, source url and regulation type of that regulation. So the ids of
  the citations are distinct and are exactly the ids that occur.
\<close>

theorem citations_first_occurrences:
  "collect_citations analyses =
     map (\<lambda>reg. \<lparr>Citation.regulation_id = RetrievedContext.regulation_id reg,
                  Citation.title = RetrievedContext.title reg,
                  Citation.source_url = RetrievedContext.source_url reg,
                  Citation.regulation_type = RetrievedContext.regulation_type reg\<rparr>)
         (first_occurrences RetrievedContext.regulation_id
            (concat (map matched_regulations analyses))) \<and>
   distinct (map Citation.regulation_id (collect_citations analyses)) \<and>
   set (map Citation.regulation_id (collect_citations analyses)) =
     set (map RetrievedContext.regulation_id (concat (map matched_regulations analyses)))"
proof -
  let ?regs = "concat (map matched_regulations analyses)"
  let ?cite = "\<lambda>reg. \<lparr>Citation.regulation_id = RetrievedContext.regulation_id reg,
                  Citation.title = RetrievedContext.title reg,
                  Citation.source_url = RetrievedContext.source_url reg,
                  Citation.regulation_type = RetrievedContext.regulation_type reg\<rparr>"
  have eq: "collect_citations analyses =
      map ?cite (first_occurrences RetrievedContext.regulation_id ?regs)"
    by (simp add: collect_citations_def fold_matched_regulations fold_add_citation)
  have ids: "map Citation.regulation_id (collect_citations analyses) =
      map RetrievedContext.regulation_id (first_occurrences RetrievedContext.regulation_id ?regs)"
    unfolding eq by (simp add: comp_def)
  show ?thesis
    using eq first_occurrences_distinct [of RetrievedContext.regulation_id ?regs]
      first_occurrences_keys [of RetrievedContext.regulation_id ?regs]
    unfolding ids by simp
qed

subsection \<open>Orderings of the report\<close>








subsection \<open>Examples\<close>

text \<open>
  The stable descending sort, the first occurrences, citations with a repeated regulation
  id, and categories of weight 1 with equal scores.
\<close>

lemma sorted_reverse_example:
  "sorted_reverse fst [(1, ''a''), (2, ''b''), (1, ''c''), (2, ''d'')] =
     [(2, ''b''), (2, ''d''), (1, ''a''), (1, ''c'')]"
  by (simp add: sorted_reverse_def)

lemma first_occurrences_example:
  "first_occurrences fst [(''x'', 1::nat), (''y'', 2), (''x'', 3), (''z'', 4), (''y'', 5)] =
     [(''x'', 1), (''y'', 2), (''z'', 4)]"
  by (simp add: first_occurrences_def upt_rec)

lemma collect_citations_example:
  "map Citation.title
     (collect_citations
        [(sample_analysis ''c1'' 60 0.8)
           \<lparr>matched_regulations := [sample_regulation ''r1'' ''A'', sample_regulation ''r2'' ''B'']\<rparr>,
         (sample_analysis ''c2'' 60 0.8)
           \<lparr>matched_regulations := [sample_regulation ''r2'' ''C'', sample_regulation ''r3'' ''D'']\<rparr>])
   = [''A'', ''B'', ''D'']"
  by (simp add: collect_citations_def add_citation_def sample_analysis_def sample_regulation_def)

lemma category_order_example:
  "map category
     (aggregate_by_category remdups
        [sample_risk ''payment_terms'' 50 MEDIUM, sample_risk ''governing_law'' 70 HIGH,
         sample_risk ''force_majeure'' 50 MEDIUM, sample_risk ''payment_terms'' 50 MEDIUM])
   = [''governing_law'', ''payment_terms'', ''force_majeure'']"
  by (simp add: aggregate_by_category_def group_by_category_def category_risk_def
      sorted_reverse_def weighted_avg_def weighted_sum_def total_weight_def sample_risk_def
      clause_weight_def dict_get_def CLAUSE_TYPE_WEIGHTS_def Let_def)

end
